theory Spec2Isabelle
  imports Main
begin

section \<open>Python values\<close>

text \<open>
  The program of \<^verbatim>\<open>app.py\<close> works on what \<^verbatim>\<open>response.json()\<close> returns: None, booleans,
  integers, floats, strings, lists and dictionaries with string keys. A Python \<^verbatim>\<open>str\<close> is
  modelled as a \<open>string\<close> holding its UTF-8 bytes (\<^verbatim>\<open>len\<close> and indexing of the model count
  bytes, Python's count code points). A dictionary is the list of its items in insertion
  order; the decoder builds it with distinct keys.

  IEEE arithmetic is not modelled: a float is represented by the three observations the
  program makes of it, namely its truth value, its \<^verbatim>\<open>str()\<close> and its rendering under the
  format specification \<^verbatim>\<open>,\<close>.
\<close>

datatype pyfloat = PyFloat (fl_truth: bool) (fl_repr: string) (fl_comma: string)

datatype json =
    JNull
  | JBool bool
  | JInt int
  | JFloat pyfloat
  | JStr string
  | JArr "json list"
  | JObj "(string \<times> json) list"

text \<open>The exceptions (all subclasses of \<^verbatim>\<open>Exception\<close>) that the modelled code can raise.\<close>

datatype pyerr =
    AttributeError
  | TypeError
  | ValueError
  | KeyError
  | IndexError
  | TransportError
  | HTTPStatusError
  | JSONDecodeError

fun bind :: "pyerr + 'a \<Rightarrow> ('a \<Rightarrow> pyerr + 'b) \<Rightarrow> pyerr + 'b" where
  "bind (Inl e) f = Inl e"
| "bind (Inr x) f = f x"

subsection \<open>Truth values, \<^verbatim>\<open>isinstance\<close>, \<^verbatim>\<open>dict.get\<close>\<close>

fun truthy :: "json \<Rightarrow> bool" where
  "truthy JNull = False"
| "truthy (JBool b) = b"
| "truthy (JInt i) = (i \<noteq> 0)"
| "truthy (JFloat f) = fl_truth f"
| "truthy (JStr s) = (s \<noteq> [])"
| "truthy (JArr xs) = (xs \<noteq> [])"
| "truthy (JObj kvs) = (kvs \<noteq> [])"

fun isinstance_dict :: "json \<Rightarrow> bool" where
  "isinstance_dict (JObj kvs) = True"
| "isinstance_dict v = False"

definition dict_get :: "(string \<times> json) list \<Rightarrow> string \<Rightarrow> json \<Rightarrow> json" where
  "dict_get kvs k dflt = (case map_of kvs k of None \<Rightarrow> dflt | Some v \<Rightarrow> v)"

text \<open>\<^verbatim>\<open>x.get(k, dflt)\<close>: only a dictionary has the method.\<close>

fun py_get :: "json \<Rightarrow> string \<Rightarrow> json \<Rightarrow> pyerr + json" where
  "py_get (JObj kvs) k dflt = Inr (dict_get kvs k dflt)"
| "py_get v k dflt = Inl AttributeError"

subsection \<open>Strings: \<^verbatim>\<open>lower\<close>, \<^verbatim>\<open>strip\<close>, \<^verbatim>\<open>in\<close>\<close>

definition lower_char :: "char \<Rightarrow> char" where
  "lower_char c =
     (case map_of (zip ''ABCDEFGHIJKLMNOPQRSTUVWXYZ'' ''abcdefghijklmnopqrstuvwxyz'') c of
        None \<Rightarrow> c
      | Some l \<Rightarrow> l)"

definition is_ascii :: "char \<Rightarrow> bool" where
  "is_ascii c = ((of_char c :: nat) < 128)"

text \<open>
  \<^verbatim>\<open>s.lower()\<close>. On ASCII text it maps the letters A to Z and nothing else. On any other
  text Python follows the Unicode tables of its runtime, which are no part of the
  repository: the model leaves that result unspecified, so that what is proved about
  \<open>lower\<close> holds whatever those tables say.
\<close>

definition lower_unicode :: "string \<Rightarrow> string" where
  "lower_unicode = undefined"

definition lower :: "string \<Rightarrow> string" where
  "lower s = (if list_all is_ascii s then map lower_char s else lower_unicode s)"

text \<open>\<^verbatim>\<open>x.lower()\<close>: only a string has the method.\<close>

fun py_lower :: "json \<Rightarrow> pyerr + string" where
  "py_lower (JStr s) = Inr (lower s)"
| "py_lower v = Inl AttributeError"

fun starts_with :: "string \<Rightarrow> string \<Rightarrow> bool" where
  "starts_with s [] = True"
| "starts_with [] (p # ps) = False"
| "starts_with (c # cs) (p # ps) = (c = p \<and> starts_with cs ps)"

text \<open>
  The characters \<^verbatim>\<open>s.strip()\<close> removes, each as its UTF-8 bytes: the ASCII white space
  (tab to carriage return, the four separators U+001C to U+001F, the space) and U+0085,
  U+00A0, U+1680, U+2000 to U+200A, U+2028, U+2029, U+202F, U+205F and U+3000.
\<close>

definition whitespace :: "string list" where
  "whitespace =
     [[CHR 0x09], [CHR 0x0A], [CHR 0x0B], [CHR 0x0C], [CHR 0x0D],
      [CHR 0x1C], [CHR 0x1D], [CHR 0x1E], [CHR 0x1F], [CHR 0x20],
      [CHR 0xC2, CHR 0x85], [CHR 0xC2, CHR 0xA0],
      [CHR 0xE1, CHR 0x9A, CHR 0x80],
      [CHR 0xE2, CHR 0x80, CHR 0x80], [CHR 0xE2, CHR 0x80, CHR 0x81],
      [CHR 0xE2, CHR 0x80, CHR 0x82], [CHR 0xE2, CHR 0x80, CHR 0x83],
      [CHR 0xE2, CHR 0x80, CHR 0x84], [CHR 0xE2, CHR 0x80, CHR 0x85],
      [CHR 0xE2, CHR 0x80, CHR 0x86], [CHR 0xE2, CHR 0x80, CHR 0x87],
      [CHR 0xE2, CHR 0x80, CHR 0x88], [CHR 0xE2, CHR 0x80, CHR 0x89],
      [CHR 0xE2, CHR 0x80, CHR 0x8A],
      [CHR 0xE2, CHR 0x80, CHR 0xA8], [CHR 0xE2, CHR 0x80, CHR 0xA9],
      [CHR 0xE2, CHR 0x80, CHR 0xAF], [CHR 0xE2, CHR 0x81, CHR 0x9F],
      [CHR 0xE3, CHR 0x80, CHR 0x80]]"

text \<open>
  Removing from the front of \<open>s\<close>, as long as there is one, a character of the table
  \<open>ws\<close>. \<^verbatim>\<open>strip\<close> does it at both ends; at the right end the text and the table are read
  backwards.
\<close>

fun strip_front :: "string list \<Rightarrow> string \<Rightarrow> string" where
  "strip_front ws [] = []"
| "strip_front ws (c # cs) =
     (case find (starts_with (c # cs)) ws of
        None \<Rightarrow> c # cs
      | Some w \<Rightarrow> strip_front ws (drop (length w - 1) cs))"

definition strip :: "string \<Rightarrow> string" where
  "strip s = rev (strip_front (map rev whitespace) (rev (strip_front whitespace s)))"

text \<open>\<^verbatim>\<open>p in s\<close> on strings: \<open>p\<close> occurs in \<open>s\<close> as a substring.\<close>

fun py_in :: "string \<Rightarrow> string \<Rightarrow> bool" where
  "py_in p [] = (p = [])"
| "py_in p (c # cs) = (starts_with (c # cs) p \<or> py_in p cs)"

subsection \<open>\<^verbatim>\<open>str()\<close>, \<^verbatim>\<open>repr()\<close> and the format specification \<^verbatim>\<open>,\<close>\<close>

text \<open>The decimal digit \<open>d < 10\<close> as a character.\<close>

definition digit :: "nat \<Rightarrow> char" where
  "digit d = ''0123456789'' ! d"

fun dec_nat :: "nat \<Rightarrow> string" where
  "dec_nat n = (if n < 10 then [digit n] else dec_nat (n div 10) @ [digit (n mod 10)])"

declare dec_nat.simps [simp del]

definition str_int :: "int \<Rightarrow> string" where
  "str_int i = (if i < 0 then CHR ''-'' # dec_nat (nat (- i)) else dec_nat (nat i))"

text \<open>
  Thousands grouping as CPython does it: the digit string is walked from its right end
  and a comma is put after every third digit that still has a digit to its left.
  \<open>group3\<close> works on the reversed digit string.
\<close>

fun group3 :: "string \<Rightarrow> string" where
  "group3 (a # b # c # d # ds) = a # b # c # CHR '','' # group3 (d # ds)"
| "group3 ds = ds"

definition int_comma :: "int \<Rightarrow> string" where
  "int_comma i =
     (if i < 0 then ''-'' else '''') @ rev (group3 (rev (dec_nat (nat \<bar>i\<bar>))))"

definition hex_digit :: "nat \<Rightarrow> char" where
  "hex_digit d = ''0123456789abcdef'' ! d"

text \<open>
  \<^verbatim>\<open>repr\<close> of a string: double quotes when the text has a single quote and no double
  quote, single quotes otherwise; the quote and the backslash are escaped, tab, newline
  and carriage return by their letters, the other control characters as \<^verbatim>\<open>\xhh\<close>.
\<close>

definition repr_char :: "char \<Rightarrow> char \<Rightarrow> string" where
  "repr_char q c =
     (let n = (of_char c :: nat) in
      if c = q \<or> n = 92 then [CHR 0x5C, c]
      else if n = 9 then [CHR 0x5C, CHR ''t'']
      else if n = 10 then [CHR 0x5C, CHR ''n'']
      else if n = 13 then [CHR 0x5C, CHR ''r'']
      else if n < 32 \<or> n = 127 then [CHR 0x5C, CHR ''x'', hex_digit (n div 16), hex_digit (n mod 16)]
      else [c])"

definition repr_str :: "string \<Rightarrow> string" where
  "repr_str s =
     (let q = (if CHR 0x27 \<in> set s \<and> CHR 0x22 \<notin> set s then CHR 0x22 else CHR 0x27)
      in [q] @ concat (map (repr_char q) s) @ [q])"

fun join :: "string \<Rightarrow> string list \<Rightarrow> string" where
  "join sep [] = []"
| "join sep [x] = x"
| "join sep (x # y # ys) = x @ sep @ join sep (y # ys)"

fun py_repr :: "json \<Rightarrow> string" where
  "py_repr JNull = ''None''"
| "py_repr (JBool b) = (if b then ''True'' else ''False'')"
| "py_repr (JInt i) = str_int i"
| "py_repr (JFloat f) = fl_repr f"
| "py_repr (JStr s) = repr_str s"
| "py_repr (JArr xs) = ''['' @ join '', '' (map py_repr xs) @ '']''"
| "py_repr (JObj kvs) =
     ''{'' @ join '', '' (map (\<lambda>(k, v). repr_str k @ '': '' @ py_repr v) kvs) @ ''}''"

fun py_str :: "json \<Rightarrow> string" where
  "py_str (JStr s) = s"
| "py_str v = py_repr v"

text \<open>
  \<^verbatim>\<open>format(v, ",")\<close>, as the f-string \<^verbatim>\<open>f"{v:,}"\<close> calls it: integers (and booleans, which
  are integers) are grouped, a string refuses the specification with ValueError, None and
  the containers with TypeError.
\<close>

fun format_comma :: "json \<Rightarrow> pyerr + string" where
  "format_comma (JInt i) = Inr (int_comma i)"
| "format_comma (JBool b) = Inr (int_comma (if b then 1 else 0))"
| "format_comma (JFloat f) = Inr (fl_comma f)"
| "format_comma (JStr s) = Inl ValueError"
| "format_comma v = Inl TypeError"

subsection \<open>\<^verbatim>\<open>len\<close>, negative indexing, iteration\<close>

fun py_len :: "json \<Rightarrow> pyerr + nat" where
  "py_len (JStr s) = Inr (length s)"
| "py_len (JArr xs) = Inr (length xs)"
| "py_len (JObj kvs) = Inr (length kvs)"
| "py_len v = Inl TypeError"

text \<open>\<^verbatim>\<open>x[-k]\<close> for \<open>k \<ge> 1\<close>.\<close>

fun index_from_end :: "json \<Rightarrow> nat \<Rightarrow> pyerr + json" where
  "index_from_end (JArr xs) k =
     (if 1 \<le> k \<and> k \<le> length xs then Inr (xs ! (length xs - k)) else Inl IndexError)"
| "index_from_end (JStr s) k =
     (if 1 \<le> k \<and> k \<le> length s then Inr (JStr [s ! (length s - k)]) else Inl IndexError)"
| "index_from_end (JObj kvs) k = Inl KeyError"
| "index_from_end v k = Inl TypeError"

text \<open>
  The items a \<^verbatim>\<open>for\<close> loop sees: the elements of a list, the keys of a dictionary, the
  characters of a string; anything else is not iterable.
\<close>

fun py_iter :: "json \<Rightarrow> pyerr + json list" where
  "py_iter (JArr xs) = Inr xs"
| "py_iter (JObj kvs) = Inr (map (\<lambda>kv. JStr (fst kv)) kvs)"
| "py_iter (JStr s) = Inr (map (\<lambda>c. JStr [c]) s)"
| "py_iter v = Inl TypeError"

section \<open>The fetcher\<close>

subsection \<open>\<^verbatim>\<open>JobsFetcher._format_salary\<close>\<close>

definition rupee :: string where
  "rupee = [CHR 0xE2, CHR 0x82, CHR 0xB9]"

definition format_salary :: "json \<Rightarrow> json \<Rightarrow> pyerr + string" where
  "format_salary min_salary max_salary =
     (if truthy min_salary \<and> truthy max_salary then
        bind (format_comma min_salary) (\<lambda>lo.
        bind (format_comma max_salary) (\<lambda>hi.
        Inr (rupee @ lo @ '' - '' @ rupee @ hi)))
      else if truthy min_salary then
        bind (format_comma min_salary) (\<lambda>lo. Inr (rupee @ lo @ ''+''))
      else if truthy max_salary then
        bind (format_comma max_salary) (\<lambda>hi. Inr (''Up to '' @ rupee @ hi))
      else Inr ''Not specified'')"

subsection \<open>\<^verbatim>\<open>JobsFetcher._parse_job_results\<close>\<close>

text \<open>\<^verbatim>\<open>x[0]\<close>, the alternative of the conditional expression that builds the location.\<close>

fun index_first :: "json \<Rightarrow> pyerr + json" where
  "index_first (JArr xs) = (case xs of [] \<Rightarrow> Inl IndexError | x # _ \<Rightarrow> Inr x)"
| "index_first (JStr s) = (case s of [] \<Rightarrow> Inl IndexError | c # _ \<Rightarrow> Inr (JStr [c]))"
| "index_first (JObj kvs) = Inl KeyError"
| "index_first v = Inl TypeError"

text \<open>
  The body of the loop over the raw items, one definition for each local variable of the
  source. \<open>job\<close> is the raw item, already known to be a dictionary.
\<close>

definition company_name :: "(string \<times> json) list \<Rightarrow> pyerr + json" where
  "company_name job =
     (let company = dict_get job ''company'' (JObj []) in
      if isinstance_dict company then py_get company ''display_name'' (JStr ''Unknown Company'')
      else Inr (JStr (if truthy company then py_str company else ''Unknown Company'')))"

definition location_str :: "(string \<times> json) list \<Rightarrow> pyerr + json" where
  "location_str job =
     (let location = dict_get job ''location'' (JObj []) in
      if isinstance_dict location then
        bind (py_get location ''display_name'' (JStr [])) (\<lambda>display_name.
        bind (py_get location ''area'' (JArr [])) (\<lambda>area.
        if truthy area then
          bind (py_len area) (\<lambda>n.
          if 1 < n then
            (if 2 \<le> n then
               bind (index_from_end area 1) (\<lambda>a1.
               bind (index_from_end area 2) (\<lambda>a2.
               Inr (JStr (py_str a1 @ '', '' @ py_str a2))))
             else index_first area)
          else Inr display_name)
        else Inr display_name))
      else Inr (JStr (if truthy location then py_str location else [])))"

definition category_name :: "(string \<times> json) list \<Rightarrow> pyerr + json" where
  "category_name job =
     (let category = dict_get job ''category'' (JObj []) in
      if isinstance_dict category then py_get category ''label'' (JStr [])
      else Inr (JStr []))"

definition is_internship :: "(string \<times> json) list \<Rightarrow> pyerr + bool" where
  "is_internship job =
     bind (py_lower (dict_get job ''title'' (JStr []))) (\<lambda>title.
     Inr (list_ex (\<lambda>keyword. py_in keyword title) [''intern'', ''trainee'', ''apprentice'']))"

definition is_remote :: "json \<Rightarrow> pyerr + bool" where
  "is_remote loc =
     (if truthy loc then bind (py_lower loc) (\<lambda>l. Inr (py_in ''remote'' l)) else Inr False)"

fun job_info :: "json \<Rightarrow> pyerr + json" where
  "job_info (JObj job) =
     bind (company_name job) (\<lambda>company.
     bind (location_str job) (\<lambda>loc.
     bind (category_name job) (\<lambda>category.
     bind (is_internship job) (\<lambda>internship.
     bind (is_remote loc) (\<lambda>remote.
     bind (format_salary (dict_get job ''salary_min'' JNull) (dict_get job ''salary_max'' JNull))
       (\<lambda>salary.
     Inr (JObj
      [(''title'', dict_get job ''title'' (JStr [])),
       (''company'', company),
       (''location'', loc),
       (''description'', dict_get job ''description'' (JStr [])),
       (''posted_date'', dict_get job ''created'' (JStr [])),
       (''job_id'', dict_get job ''id'' (JStr [])),
       (''apply_url'', dict_get job ''redirect_url'' (JStr [])),
       (''salary'', JStr salary),
       (''contract_type'', dict_get job ''contract_type'' (JStr [])),
       (''contract_time'', dict_get job ''contract_time'' (JStr [])),
       (''remote'', JBool remote),
       (''category'', category),
       (''is_internship'', JBool internship),
       (''source'', JStr ''Adzuna'')])))))))"
| "job_info v = Inl AttributeError"

declare job_info.simps [simp del]

text \<open>The loop: \<open>jobs\<close> is the list built so far.\<close>

fun parse_loop :: "json list \<Rightarrow> json list \<Rightarrow> pyerr + json list" where
  "parse_loop [] jobs = Inr jobs"
| "parse_loop (job # rest) jobs =
     (case job_info job of Inl e \<Rightarrow> Inl e | Inr info \<Rightarrow> parse_loop rest (jobs @ [info]))"

definition parse_job_results :: "json \<Rightarrow> pyerr + json list" where
  "parse_job_results data =
     bind (py_get data ''results'' (JArr [])) (\<lambda>results.
     bind (py_iter results) (\<lambda>items. parse_loop items []))"

subsection \<open>\<^verbatim>\<open>JobsFetcher.search_jobs\<close>\<close>

text \<open>
  The HTTP client is the environment. A request is answered by an exception or by a
  response, and a response is represented by what its two methods do:
  \<^verbatim>\<open>raise_for_status()\<close> raises or not, \<^verbatim>\<open>json()\<close> raises or returns the decoded body.
\<close>

record request =
  url :: string
  params :: "(string \<times> json) list"

record response =
  raise_for_status :: "pyerr option"
  json_body :: "pyerr + json"

record jobs_fetcher =
  client_get :: "request \<Rightarrow> pyerr + response"
  adzuna_app_id :: json
  adzuna_app_key :: json
  adzuna_base_url :: string

definition search_request ::
  "jobs_fetcher \<Rightarrow> string \<Rightarrow> string \<Rightarrow> string \<Rightarrow> int \<Rightarrow> int \<Rightarrow> request" where
  "search_request self what wher country page results_per_page =
     \<lparr>url = adzuna_base_url self @ ''/'' @ country @ ''/search/'' @ str_int page,
      params =
        [(''app_id'', adzuna_app_id self),
         (''app_key'', adzuna_app_key self),
         (''results_per_page'', JInt results_per_page),
         (''what'', JStr what),
         (''where'', JStr wher)]\<rparr>"

text \<open>The body of the \<^verbatim>\<open>try\<close> block.\<close>

definition search_jobs_try ::
  "jobs_fetcher \<Rightarrow> string \<Rightarrow> string \<Rightarrow> string \<Rightarrow> int \<Rightarrow> int \<Rightarrow> pyerr + json list" where
  "search_jobs_try self what wher country page results_per_page =
     bind (client_get self (search_request self what wher country page results_per_page))
       (\<lambda>resp.
     case raise_for_status resp of
       Some e \<Rightarrow> Inl e
     | None \<Rightarrow> bind (json_body resp) (\<lambda>data. parse_job_results data))"

text \<open>\<^verbatim>\<open>except Exception: return []\<close>\<close>

definition search_jobs ::
  "jobs_fetcher \<Rightarrow> string \<Rightarrow> string \<Rightarrow> string \<Rightarrow> int \<Rightarrow> int \<Rightarrow> json list" where
  "search_jobs self what wher country page results_per_page =
     (case search_jobs_try self what wher country page results_per_page of
        Inl e \<Rightarrow> []
      | Inr jobs \<Rightarrow> jobs)"

subsection \<open>\<^verbatim>\<open>JobsFetcher.search_by_company\<close>\<close>

text \<open>The test of the \<^verbatim>\<open>if\<close> inside the loop; \<^verbatim>\<open>lower\<close> raises when the field is no string.\<close>

definition company_match :: "string \<Rightarrow> json \<Rightarrow> pyerr + bool" where
  "company_match company_lower job =
     bind (py_get job ''company'' (JStr [])) (\<lambda>c.
     bind (py_lower c) (\<lambda>l.
     let job_company = strip l in
     Inr (company_lower = job_company \<or> py_in company_lower job_company
          \<or> py_in job_company company_lower)))"

fun company_loop :: "string \<Rightarrow> int \<Rightarrow> json list \<Rightarrow> json list \<Rightarrow> pyerr + json list" where
  "company_loop company_lower results_per_page [] filtered_jobs = Inr filtered_jobs"
| "company_loop company_lower results_per_page (job # rest) filtered_jobs =
     (case company_match company_lower job of
        Inl e \<Rightarrow> Inl e
      | Inr m \<Rightarrow>
          if m then
            (if results_per_page \<le> int (length (filtered_jobs @ [job]))
             then Inr (filtered_jobs @ [job])
             else company_loop company_lower results_per_page rest (filtered_jobs @ [job]))
          else company_loop company_lower results_per_page rest filtered_jobs)"

definition search_by_company ::
  "jobs_fetcher \<Rightarrow> string \<Rightarrow> string \<Rightarrow> string \<Rightarrow> int \<Rightarrow> int \<Rightarrow> pyerr + json list" where
  "search_by_company self company wher country page results_per_page =
     (let all_jobs = search_jobs self company wher country page (results_per_page * 3);
          company_lower = strip (lower company)
      in company_loop company_lower results_per_page all_jobs [])"

subsection \<open>The tool \<^verbatim>\<open>search_remote_jobs\<close>\<close>

text \<open>The list comprehension \<^verbatim>\<open>[job for job in results if job.get("remote", False)]\<close>.\<close>

fun remote_filter :: "json list \<Rightarrow> pyerr + json list" where
  "remote_filter [] = Inr []"
| "remote_filter (job # rest) =
     (case py_get job ''remote'' (JBool False) of
        Inl e \<Rightarrow> Inl e
      | Inr r \<Rightarrow>
          (case remote_filter rest of
             Inl e \<Rightarrow> Inl e
           | Inr kept \<Rightarrow> Inr (if truthy r then job # kept else kept)))"

text \<open>
  The tool returns the dictionary below serialised by \<^verbatim>\<open>json.dumps\<close>; the model returns
  the dictionary. \<open>now\<close> stands for \<^verbatim>\<open>datetime.now().isoformat()\<close>, and \<open>self\<close> for the
  module's global fetcher.
\<close>

definition search_remote_jobs ::
  "jobs_fetcher \<Rightarrow> string \<Rightarrow> string \<Rightarrow> string \<Rightarrow> int \<Rightarrow> int \<Rightarrow> pyerr + (string \<times> json) list" where
  "search_remote_jobs self now keywords country page results_per_page =
     (let search_terms = (if keywords \<noteq> [] then keywords @ '' remote'' else ''remote'');
          results = search_jobs self search_terms ''Remote'' country page results_per_page
      in bind (remote_filter results) (\<lambda>remote_jobs.
         Inr [(''search_terms'', JStr keywords),
              (''country'', JStr country),
              (''page'', JInt page),
              (''remote_jobs'', JArr remote_jobs),
              (''total_found'', JInt (int (length remote_jobs))),
              (''timestamp'', JStr now)]))"

section \<open>Notions of the specification\<close>

text \<open>
  The exchange with the upstream provider fails: the request raises (transport), the
  status check raises, or decoding the body raises.
\<close>

definition exchange_fails :: "jobs_fetcher \<Rightarrow> request \<Rightarrow> bool" where
  "exchange_fails self req =
     (case client_get self req of
        Inl e \<Rightarrow> True
      | Inr resp \<Rightarrow>
          (case raise_for_status resp of
             Some e \<Rightarrow> True
           | None \<Rightarrow> (case json_body resp of Inl e \<Rightarrow> True | Inr data \<Rightarrow> False)))"

text \<open>A fetcher whose client gives the same answer to every request.\<close>

definition canned_fetcher :: "pyerr + response \<Rightarrow> jobs_fetcher" where
  "canned_fetcher answer =
     \<lparr>client_get = (\<lambda>req. answer), adzuna_app_id = JNull, adzuna_app_key = JNull,
      adzuna_base_url = ''https://api.adzuna.com/v1/api/jobs''\<rparr>"

text \<open>
  Thousands separators, as the specification words them: the number is cut into groups
  of three decimal digits from the right, the groups are separated by commas.
\<close>

definition three_digits :: "nat \<Rightarrow> string" where
  "three_digits m = [digit (m div 100), digit (m div 10 mod 10), digit (m mod 10)]"

fun thousands :: "nat \<Rightarrow> string" where
  "thousands n =
     (if n < 1000 then dec_nat n
      else thousands (n div 1000) @ '','' @ three_digits (n mod 1000))"

declare thousands.simps [simp del]

definition with_separators :: "int \<Rightarrow> string" where
  "with_separators i = (if i < 0 then ''-'' else []) @ thousands (nat \<bar>i\<bar>)"

text \<open>
  The salary rule of the specification on a pair of optional integer bounds, \<open>None\<close> for
  a bound that is not there.
\<close>

fun spec_format_salary :: "int option \<Rightarrow> int option \<Rightarrow> string" where
  "spec_format_salary (Some lo) (Some hi) =
     rupee @ with_separators lo @ '' - '' @ rupee @ with_separators hi"
| "spec_format_salary (Some lo) None = rupee @ with_separators lo @ ''+''"
| "spec_format_salary None (Some hi) = ''Up to '' @ rupee @ with_separators hi"
| "spec_format_salary None None = ''Not specified''"

text \<open>The Python value of an optional bound, as \<^verbatim>\<open>job.get("salary_min")\<close> yields it.\<close>

definition bound :: "int option \<Rightarrow> json" where
  "bound b = (case b of None \<Rightarrow> JNull | Some i \<Rightarrow> JInt i)"

text \<open>A bound that counts as present for the code: there and not zero.\<close>

definition nonzero :: "int option \<Rightarrow> int option" where
  "nonzero b = (if b = Some 0 then None else b)"

text \<open>\<open>p\<close> occurs in \<open>s\<close> as a substring.\<close>

definition contains :: "string \<Rightarrow> string \<Rightarrow> bool" where
  "contains s p = (\<exists>xs ys. s = xs @ p @ ys)"

text \<open>The value stored under a key of a record, if the value is a record with that key.\<close>

fun field :: "json \<Rightarrow> string \<Rightarrow> json option" where
  "field (JObj kvs) k = map_of kvs k"
| "field v k = None"

text \<open>The fourteen fields of the canonical job record, in the order of the data model.\<close>

definition schema_fields :: "string list" where
  "schema_fields =
     [''title'', ''company'', ''location'', ''description'', ''posted_date'', ''job_id'',
      ''apply_url'', ''salary'', ''contract_type'', ''contract_time'', ''remote'',
      ''category'', ''is_internship'', ''source'']"
text \<open>
  The company field as the specification words it, on the raw item's \<open>company\<close> entry:
  the display name of an object (with the default), the stringified value of anything
  else, the default when the entry is absent.
\<close>

fun spec_company :: "json option \<Rightarrow> json" where
  "spec_company None = JStr ''Unknown Company''"
| "spec_company (Some (JObj c)) = dict_get c ''display_name'' (JStr ''Unknown Company'')"
| "spec_company (Some v) = JStr (py_str v)"

text \<open>The same with the code's guard: a value that is false gets the default.\<close>

fun resolved_company :: "json option \<Rightarrow> json" where
  "resolved_company None = JStr ''Unknown Company''"
| "resolved_company (Some (JObj c)) = dict_get c ''display_name'' (JStr ''Unknown Company'')"
| "resolved_company (Some v) = JStr (if truthy v then py_str v else ''Unknown Company'')"

text \<open>
  Record fields that pass an upstream field through, each with its upstream key, and the
  defaults of the data model for upstream fields that are missing.
\<close>

definition passthrough_fields :: "(string \<times> string) list" where
  "passthrough_fields =
     [(''title'', ''title''), (''description'', ''description''), (''posted_date'', ''created''),
      (''job_id'', ''id''), (''apply_url'', ''redirect_url''),
      (''contract_type'', ''contract_type''), (''contract_time'', ''contract_time'')]"

definition defaults_applied :: "(string \<times> json) list \<Rightarrow> (string \<times> json) list \<Rightarrow> bool" where
  "defaults_applied raw kvs =
     ((\<forall>(f, k) \<in> set passthrough_fields. map_of raw k = None \<longrightarrow> map_of kvs f = Some (JStr []))
      \<and> (map_of raw ''company'' = None \<longrightarrow> map_of kvs ''company'' = Some (JStr ''Unknown Company''))
      \<and> (map_of raw ''location'' = None \<longrightarrow>
           map_of kvs ''location'' = Some (JStr []) \<and> map_of kvs ''remote'' = Some (JBool False))
      \<and> (map_of raw ''category'' = None \<longrightarrow> map_of kvs ''category'' = Some (JStr []))
      \<and> (map_of raw ''salary_min'' = None \<and> map_of raw ''salary_max'' = None \<longrightarrow>
           map_of kvs ''salary'' = Some (JStr ''Not specified''))
      \<and> (map_of raw ''title'' = None \<longrightarrow> map_of kvs ''is_internship'' = Some (JBool False)))"
text \<open>
  The company test of the specification: the record's company is a string and, both
  sides lower-cased and trimmed, it equals the requested name, contains it, or is
  contained in it.
\<close>

definition company_matches :: "string \<Rightarrow> json \<Rightarrow> bool" where
  "company_matches company job =
     (\<exists>c. field job ''company'' = Some (JStr c)
          \<and> (strip (lower company) = strip (lower c)
               \<or> contains (strip (lower c)) (strip (lower company))
               \<or> contains (strip (lower company)) (strip (lower c))))"

text \<open>The search terms of the remote search.\<close>

definition remote_terms :: "string \<Rightarrow> string" where
  "remote_terms keywords = (if keywords = [] then ''remote'' else keywords @ '' remote'')"

text \<open>A client that answers every request with a successful response of the given body.\<close>

definition serving :: "json \<Rightarrow> jobs_fetcher" where
  "serving body = canned_fetcher (Inr \<lparr>raise_for_status = None, json_body = Inr body\<rparr>)"

subsection \<open>Sample data\<close>

text \<open>
  A raw item with a title, a company object and a location object, and the record the
  normalizer is expected to build from it, given the two flags.
\<close>

definition listing :: "string \<Rightarrow> string \<Rightarrow> string \<Rightarrow> json" where
  "listing title company loc =
     JObj [(''title'', JStr title),
           (''company'', JObj [(''display_name'', JStr company)]),
           (''location'', JObj [(''display_name'', JStr loc)])]"

definition listing_record :: "string \<Rightarrow> string \<Rightarrow> string \<Rightarrow> bool \<Rightarrow> bool \<Rightarrow> json" where
  "listing_record title company loc internship remote =
     JObj [(''title'', JStr title),
           (''company'', JStr company),
           (''location'', JStr loc),
           (''description'', JStr []),
           (''posted_date'', JStr []),
           (''job_id'', JStr []),
           (''apply_url'', JStr []),
           (''salary'', JStr ''Not specified''),
           (''contract_type'', JStr []),
           (''contract_time'', JStr []),
           (''remote'', JBool remote),
           (''category'', JStr []),
           (''is_internship'', JBool internship),
           (''source'', JStr ''Adzuna'')]"

text \<open>A raw item as the upstream provider sends it, with an area list and both salary bounds.\<close>

definition sample_location :: "(string \<times> json) list" where
  "sample_location =
     [(''display_name'', JStr ''Bangalore, Karnataka, India''),
      (''area'', JArr [JStr ''India'', JStr ''Karnataka'', JStr ''Bangalore''])]"

definition sample_job :: "(string \<times> json) list" where
  "sample_job =
     [(''id'', JStr ''4242''),
      (''title'', JStr ''Marketing Trainee''),
      (''company'', JObj [(''display_name'', JStr ''Acme Corp'')]),
      (''location'', JObj sample_location),
      (''category'', JObj [(''label'', JStr ''Sales Jobs''), (''tag'', JStr ''sales-jobs'')]),
      (''salary_min'', JInt 50000),
      (''salary_max'', JInt 80000),
      (''contract_time'', JStr ''full_time'')]"

definition sample_record :: json where
  "sample_record =
     JObj [(''title'', JStr ''Marketing Trainee''),
           (''company'', JStr ''Acme Corp''),
           (''location'', JStr ''Bangalore, Karnataka''),
           (''description'', JStr []),
           (''posted_date'', JStr []),
           (''job_id'', JStr ''4242''),
           (''apply_url'', JStr []),
           (''salary'', JStr (rupee @ ''50,000 - '' @ rupee @ ''80,000'')),
           (''contract_type'', JStr []),
           (''contract_time'', JStr ''full_time''),
           (''remote'', JBool False),
           (''category'', JStr ''Sales Jobs''),
           (''is_internship'', JBool True),
           (''source'', JStr ''Adzuna'')]"

text \<open>The company example of the specification: three listings and the query "Acme".\<close>

definition acme_body :: json where
  "acme_body =
     JObj [(''results'',
            JArr [listing ''Developer'' ''Acme Corp'' ''Pune'',
                  listing ''Developer'' ''Acme Corporation India'' ''Pune'',
                  listing ''Developer'' ''Other'' ''Pune''])]"

text \<open>A response with one listing in a remote location and one in a city.\<close>

definition remote_body :: json where
  "remote_body =
     JObj [(''results'',
            JArr [listing ''Developer'' ''Acme Corp'' ''Remote, India'',
                  listing ''Developer'' ''Acme Corp'' ''Pune''])]"

section \<open>Properties\<close>

subsection \<open>Fail-soft search\<close>

text \<open>
  C1. Whenever the HTTP request, the status check or the JSON decode raises, the body of
  the \<^verbatim>\<open>try\<close> block ends in an exception and \<open>search_jobs\<close> returns the empty list; as
  \<open>search_jobs\<close> returns a list on every input, its caller never sees an exception.
\<close>

theorem search_jobs_fail_soft:
  assumes "exchange_fails self (search_request self what wher country page results_per_page)"
  shows "(\<exists>e. search_jobs_try self what wher country page results_per_page = Inl e)
         \<and> search_jobs self what wher country page results_per_page = []"
  using assms
  by (auto simp: exchange_fails_def search_jobs_def search_jobs_try_def
           split: sum.splits option.splits)

theorem search_jobs_fail_soft_witness:
  "exchange_fails (canned_fetcher (Inl TransportError))
     (search_request (canned_fetcher (Inl TransportError)) ''python'' ''India'' ''in'' 1 20)
   \<and> search_jobs (canned_fetcher (Inl TransportError)) ''python'' ''India'' ''in'' 1 20 = []
   \<and> exchange_fails
       (canned_fetcher (Inr \<lparr>raise_for_status = Some HTTPStatusError, json_body = Inr (JObj [])\<rparr>))
       (search_request
         (canned_fetcher (Inr \<lparr>raise_for_status = Some HTTPStatusError, json_body = Inr (JObj [])\<rparr>))
         ''python'' ''India'' ''in'' 1 20)
   \<and> search_jobs
       (canned_fetcher (Inr \<lparr>raise_for_status = Some HTTPStatusError, json_body = Inr (JObj [])\<rparr>))
       ''python'' ''India'' ''in'' 1 20 = []
   \<and> exchange_fails
       (canned_fetcher (Inr \<lparr>raise_for_status = None, json_body = Inl JSONDecodeError\<rparr>))
       (search_request
         (canned_fetcher (Inr \<lparr>raise_for_status = None, json_body = Inl JSONDecodeError\<rparr>))
         ''python'' ''India'' ''in'' 1 20)
   \<and> search_jobs
       (canned_fetcher (Inr \<lparr>raise_for_status = None, json_body = Inl JSONDecodeError\<rparr>))
       ''python'' ''India'' ''in'' 1 20 = []"
proof -
  have a: "exchange_fails (canned_fetcher (Inl TransportError)) req" for req
    by (simp add: exchange_fails_def canned_fetcher_def)
  have b: "exchange_fails
      (canned_fetcher (Inr \<lparr>raise_for_status = Some HTTPStatusError, json_body = Inr (JObj [])\<rparr>))
      req" for req
    by (simp add: exchange_fails_def canned_fetcher_def)
  have c: "exchange_fails
      (canned_fetcher (Inr \<lparr>raise_for_status = None, json_body = Inl JSONDecodeError\<rparr>)) req"
    for req
    by (simp add: exchange_fails_def canned_fetcher_def)
  show ?thesis
    using a b c search_jobs_fail_soft [OF a] search_jobs_fail_soft [OF b]
      search_jobs_fail_soft [OF c]
    by blast
qed

subsection \<open>Salary formatting\<close>

lemma dec_nat_not_Nil: "dec_nat n \<noteq> []"
  by (subst dec_nat.simps) simp

lemma dec_nat_step: "10 \<le> n \<Longrightarrow> dec_nat n = dec_nat (n div 10) @ [digit (n mod 10)]"
  by (subst dec_nat.simps) simp

lemma dec_nat_digit: "n < 10 \<Longrightarrow> dec_nat n = [digit n]"
  by (subst dec_nat.simps) simp

lemma group3_short: "length ds \<le> 3 \<Longrightarrow> group3 ds = ds"
  by (induction ds rule: group3.induct) auto

lemma group3_three: "ds \<noteq> [] \<Longrightarrow> group3 (a # b # c # ds) = a # b # c # CHR '','' # group3 ds"
  by (cases ds) auto

lemma three_digits_mod:
  "three_digits (n mod 1000) = [digit (n div 100 mod 10), digit (n div 10 mod 10), digit (n mod 10)]"
proof -
  have "n mod 1000 = n mod (100 * 10)" by simp
  also have "\<dots> = 100 * (n div 100 mod 10) + n mod 100" by (rule mod_mult2_eq)
  finally have h: "n mod 1000 div 100 = n div 100 mod 10" by simp
  have "n mod 1000 = n mod (10 * 100)" by simp
  also have "\<dots> = 10 * (n div 10 mod 100) + n mod 10" by (rule mod_mult2_eq)
  finally have "n mod 1000 div 10 = n div 10 mod 100" by simp
  then have t: "n mod 1000 div 10 mod 10 = n div 10 mod 10" by (simp add: mod_mod_cancel)
  have u: "n mod 1000 mod 10 = n mod 10" by (simp add: mod_mod_cancel)
  show ?thesis unfolding three_digits_def h t u ..
qed

lemma dec_nat_split:
  assumes "1000 \<le> n"
  shows "dec_nat n = dec_nat (n div 1000) @ three_digits (n mod 1000)"
proof -
  have g1: "10 \<le> n" using assms by simp
  have g2: "10 \<le> n div 10" using assms by linarith
  have g3: "10 \<le> n div 10 div 10" using assms by linarith
  have a: "n div 100 div 10 = n div 1000" "n div 10 div 10 = n div 100"
    by (simp_all add: div_mult2_eq [symmetric])
  have "dec_nat n = dec_nat (n div 10 div 10 div 10) @
     [digit (n div 10 div 10 mod 10), digit (n div 10 mod 10), digit (n mod 10)]"
    by (simp add: dec_nat_step [OF g1] dec_nat_step [OF g2] dec_nat_step [OF g3])
  then show ?thesis
    by (simp only: a three_digits_mod)
qed

lemma dec_nat_length_small:
  assumes "n < 1000"
  shows "length (dec_nat n) \<le> 3"
proof (cases "n < 10")
  case True
  then show ?thesis by (simp add: dec_nat_digit)
next
  case False
  then have s1: "dec_nat n = dec_nat (n div 10) @ [digit (n mod 10)]"
    by (simp add: dec_nat_step)
  show ?thesis
  proof (cases "n div 10 < 10")
    case True
    with s1 show ?thesis by (simp add: dec_nat_digit)
  next
    case False
    then have s2: "dec_nat (n div 10) = dec_nat (n div 10 div 10) @ [digit (n div 10 mod 10)]"
      by (simp add: dec_nat_step)
    have "n div 10 div 10 < 10" using assms by linarith
    with s1 s2 show ?thesis by (simp add: dec_nat_digit)
  qed
qed

lemma group3_thousands: "rev (group3 (rev (dec_nat n))) = thousands n"
proof (induction n rule: thousands.induct)
  case (1 n)
  show ?case
  proof (cases "n < 1000")
    case True
    then show ?thesis
      by (subst thousands.simps) (simp add: group3_short dec_nat_length_small)
  next
    case False
    then have ge: "1000 \<le> n" by simp
    have "rev (dec_nat n) =
        digit (n mod 1000 mod 10) # digit (n mod 1000 div 10 mod 10) # digit (n mod 1000 div 100)
          # rev (dec_nat (n div 1000))"
      by (simp add: dec_nat_split [OF ge] three_digits_def)
    then have "rev (group3 (rev (dec_nat n))) =
        rev (group3 (rev (dec_nat (n div 1000)))) @ '','' @ three_digits (n mod 1000)"
      by (simp add: group3_three dec_nat_not_Nil three_digits_def)
    with 1 False show ?thesis
      by (subst thousands.simps) simp
  qed
qed

lemma int_comma_with_separators: "int_comma i = with_separators i"
  by (simp add: int_comma_def with_separators_def group3_thousands)

lemma with_separators_50000: "with_separators 50000 = ''50,000''"
  by (simp add: with_separators_def thousands.simps [of 50000] thousands.simps [of 50]
      dec_nat_step dec_nat_digit three_digits_def digit_def)

lemma with_separators_80000: "with_separators 80000 = ''80,000''"
  by (simp add: with_separators_def thousands.simps [of 80000] thousands.simps [of 80]
      dec_nat_step dec_nat_digit three_digits_def digit_def)

text \<open>
  The rule as the specification states it fails on a bound that is present and zero: the
  code tests the bounds for truth, and \<open>0\<close> is false.
\<close>

theorem format_salary_zero_counterexample:
  "format_salary (bound (Some 0)) (bound (Some 80000)) = Inr (''Up to '' @ rupee @ ''80,000'')
   \<and> format_salary (bound (Some 0)) (bound (Some 80000))
       \<noteq> Inr (spec_format_salary (Some 0) (Some 80000))"
  by (simp add: format_salary_def bound_def rupee_def int_comma_with_separators
      with_separators_80000)

text \<open>
  C2 (amended). On integer bounds \<open>_format_salary\<close> returns the string of the salary rule,
  with the rupee sign and thousands separators, where a bound counts as present when it is
  there and not zero: both present give \<open>"<min> - <max>"\<close>, only the minimum \<open>"<min>+"\<close>,
  only the maximum \<open>"Up to <max>"\<close>, neither \<open>"Not specified"\<close>.
\<close>

theorem format_salary_present_nonzero:
  "format_salary (bound lo) (bound hi) = Inr (spec_format_salary (nonzero lo) (nonzero hi))"
  by (cases lo; cases hi)
     (auto simp: format_salary_def bound_def nonzero_def int_comma_with_separators)

theorem format_salary_present_nonzero_witness:
  "format_salary (JInt 50000) (JInt 80000) = Inr (rupee @ ''50,000 - '' @ rupee @ ''80,000'')
   \<and> format_salary (JInt 50000) JNull = Inr (rupee @ ''50,000+'')
   \<and> format_salary JNull (JInt 80000) = Inr (''Up to '' @ rupee @ ''80,000'')
   \<and> format_salary JNull JNull = Inr ''Not specified''"
  using format_salary_present_nonzero [of "Some 50000" "Some 80000"]
    format_salary_present_nonzero [of "Some 50000" None]
    format_salary_present_nonzero [of None "Some 80000"]
    format_salary_present_nonzero [of None None]
  by (simp add: bound_def nonzero_def with_separators_50000 with_separators_80000)

subsection \<open>Auxiliary facts\<close>

lemma bind_eq_Inr: "bind m f = Inr y \<longleftrightarrow> (\<exists>x. m = Inr x \<and> f x = Inr y)"
  by (cases m) auto

lemma py_get_eq_Inr: "py_get v k d = Inr x \<longleftrightarrow> (\<exists>kvs. v = JObj kvs \<and> x = dict_get kvs k d)"
  by (cases v) auto

lemma py_lower_eq_Inr: "py_lower v = Inr l \<longleftrightarrow> (\<exists>s. v = JStr s \<and> l = lower s)"
  by (cases v) auto

lemma starts_with_iff: "starts_with s p \<longleftrightarrow> (\<exists>ys. s = p @ ys)"
  by (induction s p rule: starts_with.induct) auto

lemma contains_Nil: "contains [] p \<longleftrightarrow> p = []"
  by (simp add: contains_def)

lemma contains_Cons: "contains (c # cs) p \<longleftrightarrow> (\<exists>ys. c # cs = p @ ys) \<or> contains cs p"
proof
  assume "contains (c # cs) p"
  then obtain xs ys where eq: "c # cs = xs @ p @ ys"
    by (auto simp: contains_def)
  show "(\<exists>ys. c # cs = p @ ys) \<or> contains cs p"
  proof (cases xs)
    case Nil
    with eq show ?thesis by auto
  next
    case (Cons x xs')
    with eq have "cs = xs' @ p @ ys" by simp
    then show ?thesis by (auto simp: contains_def)
  qed
next
  assume "(\<exists>ys. c # cs = p @ ys) \<or> contains cs p"
  then show "contains (c # cs) p"
  proof
    assume "\<exists>ys. c # cs = p @ ys"
    then obtain ys where "c # cs = [] @ p @ ys" by auto
    then show ?thesis unfolding contains_def by blast
  next
    assume "contains cs p"
    then obtain xs ys where "cs = xs @ p @ ys" by (auto simp: contains_def)
    then have "c # cs = (c # xs) @ p @ ys" by simp
    then show ?thesis unfolding contains_def by blast
  qed
qed

lemma py_in_contains: "py_in p s \<longleftrightarrow> contains s p"
  by (induction s) (auto simp: contains_Nil contains_Cons starts_with_iff)

lemma job_info_Inr:
  assumes "job_info raw = Inr info"
  obtains job company loc category internship remote salary where
    "raw = JObj job"
    "company_name job = Inr company"
    "location_str job = Inr loc"
    "category_name job = Inr category"
    "is_internship job = Inr internship"
    "is_remote loc = Inr remote"
    "format_salary (dict_get job ''salary_min'' JNull) (dict_get job ''salary_max'' JNull)
       = Inr salary"
    "info = JObj
      [(''title'', dict_get job ''title'' (JStr [])),
       (''company'', company),
       (''location'', loc),
       (''description'', dict_get job ''description'' (JStr [])),
       (''posted_date'', dict_get job ''created'' (JStr [])),
       (''job_id'', dict_get job ''id'' (JStr [])),
       (''apply_url'', dict_get job ''redirect_url'' (JStr [])),
       (''salary'', JStr salary),
       (''contract_type'', dict_get job ''contract_type'' (JStr [])),
       (''contract_time'', dict_get job ''contract_time'' (JStr [])),
       (''remote'', JBool remote),
       (''category'', category),
       (''is_internship'', JBool internship),
       (''source'', JStr ''Adzuna'')]"
proof (cases raw)
  case (JObj job)
  with assms show ?thesis
    by (auto simp: job_info.simps bind_eq_Inr intro: that)
qed (use assms in \<open>simp_all add: job_info.simps\<close>)

lemma parse_loop_Inr:
  "parse_loop items acc = Inr jobs \<Longrightarrow>
   \<exists>infos. jobs = acc @ infos \<and> list_all2 (\<lambda>item info. job_info item = Inr info) items infos"
proof (induction items arbitrary: acc)
  case Nil
  then show ?case by simp
next
  case (Cons item items)
  then obtain info where i: "job_info item = Inr info"
    and rest: "parse_loop items (acc @ [info]) = Inr jobs"
    by (auto split: sum.splits)
  from Cons.IH [OF rest] obtain infos where
    "jobs = (acc @ [info]) @ infos" "list_all2 (\<lambda>item info. job_info item = Inr info) items infos"
    by blast
  with i have "jobs = acc @ (info # infos)
      \<and> list_all2 (\<lambda>item info. job_info item = Inr info) (item # items) (info # infos)"
    by simp
  then show ?case by blast
qed

lemma parse_loop_all:
  "list_all2 (\<lambda>item info. job_info item = Inr info) items infos \<Longrightarrow>
   parse_loop items acc = Inr (acc @ infos)"
  by (induction items infos arbitrary: acc rule: list_all2_induct) auto

lemma parse_job_results_Inr:
  assumes "parse_job_results data = Inr jobs"
  obtains d items where "data = JObj d"
    "py_iter (dict_get d ''results'' (JArr [])) = Inr items"
    "list_all2 (\<lambda>item info. job_info item = Inr info) items jobs"
proof -
  from assms obtain d items where "data = JObj d"
    "py_iter (dict_get d ''results'' (JArr [])) = Inr items" "parse_loop items [] = Inr jobs"
    by (auto simp: parse_job_results_def bind_eq_Inr py_get_eq_Inr)
  with parse_loop_Inr [of items "[]" jobs] show ?thesis
    by (auto intro: that)
qed

lemma parsed_record:
  assumes "parse_job_results data = Inr jobs" "info \<in> set jobs"
  shows "\<exists>raw. job_info raw = Inr info"
proof -
  from assms(1) obtain items where
    "list_all2 (\<lambda>item info. job_info item = Inr info) items jobs"
    by (rule parse_job_results_Inr)
  with assms(2) show ?thesis
    by (auto simp: list_all2_conv_all_nth in_set_conv_nth)
qed

lemma company_name_resolved: "company_name job = Inr (resolved_company (map_of job ''company''))"
proof (cases "map_of job ''company''")
  case None
  then show ?thesis by (simp add: company_name_def dict_get_def)
next
  case (Some v)
  then show ?thesis by (cases v) (simp_all add: company_name_def dict_get_def)
qed

lemma location_str_absent:
  "map_of job ''location'' = None \<Longrightarrow> location_str job = Inr (JStr [])"
  by (simp add: location_str_def dict_get_def)

lemma category_name_absent:
  "map_of job ''category'' = None \<Longrightarrow> category_name job = Inr (JStr [])"
  by (simp add: category_name_def dict_get_def)

lemma is_internship_absent:
  "map_of job ''title'' = None \<Longrightarrow> is_internship job = Inr False"
  by (simp add: is_internship_def dict_get_def lower_def)

lemma format_salary_absent:
  "map_of job ''salary_min'' = None \<Longrightarrow> map_of job ''salary_max'' = None \<Longrightarrow>
   format_salary (dict_get job ''salary_min'' JNull) (dict_get job ''salary_max'' JNull)
     = Inr ''Not specified''"
  by (simp add: format_salary_def dict_get_def)

lemma search_jobs_record:
  assumes "job \<in> set (search_jobs self what wher country page results_per_page)"
  shows "\<exists>raw. job_info raw = Inr job"
proof -
  from assms obtain jobs where
    "search_jobs_try self what wher country page results_per_page = Inr jobs" "job \<in> set jobs"
    by (cases "search_jobs_try self what wher country page results_per_page")
       (auto simp: search_jobs_def)
  then obtain data where "parse_job_results data = Inr jobs"
    by (auto simp: search_jobs_try_def bind_eq_Inr split: option.splits)
  then show ?thesis
    using \<open>job \<in> set jobs\<close> by (rule parsed_record)
qed

lemma search_jobs_serving:
  "search_jobs (serving body) what wher country page results_per_page =
     (case parse_job_results body of Inl e \<Rightarrow> [] | Inr jobs \<Rightarrow> jobs)"
  by (simp add: search_jobs_def search_jobs_try_def serving_def canned_fetcher_def)

lemma all_items_parse:
  "\<forall>item \<in> set items. \<exists>info. job_info item = Inr info \<Longrightarrow>
   \<exists>infos. list_all2 (\<lambda>item info. job_info item = Inr info) items infos"
proof (induction items)
  case Nil
  then show ?case by simp
next
  case (Cons item items)
  then obtain info infos where "job_info item = Inr info"
    "list_all2 (\<lambda>item info. job_info item = Inr info) items infos"
    by auto
  then have "list_all2 (\<lambda>item info. job_info item = Inr info) (item # items) (info # infos)"
    by simp
  then show ?case by blast
qed

lemma company_match_spec:
  assumes "field job ''company'' = Some (JStr c)"
  shows "company_match (strip (lower company)) job = Inr (company_matches company job)"
proof -
  from assms obtain kvs where "job = JObj kvs" "map_of kvs ''company'' = Some (JStr c)"
    by (cases job) auto
  with assms show ?thesis
    by (simp add: company_match_def company_matches_def dict_get_def py_in_contains Let_def)
qed

lemma company_loop_spec:
  assumes "\<forall>job \<in> set jobs. company_match cl job = Inr (P job)"
    and "int (length acc) < results_per_page"
  shows "company_loop cl results_per_page jobs acc =
           Inr (take (nat results_per_page) (acc @ filter P jobs))"
  using assms
proof (induction jobs arbitrary: acc)
  case Nil
  then show ?case by simp
next
  case (Cons job rest)
  then have m: "company_match cl job = Inr (P job)"
    and rest: "\<forall>job \<in> set rest. company_match cl job = Inr (P job)"
    by simp_all
  show ?case
  proof (cases "P job")
    case False
    with m Cons.IH [OF rest Cons.prems(2)] show ?thesis by simp
  next
    case True
    show ?thesis
    proof (cases "results_per_page \<le> int (length (acc @ [job]))")
      case full: True
      with Cons.prems(2) have "nat results_per_page = length (acc @ [job])" by simp
      then have "take (nat results_per_page) ((acc @ [job]) @ filter P rest) = acc @ [job]"
        by (simp only: append_eq_conv_conj take_all_iff append_take_drop_id take_append)
           simp
      with m True full show ?thesis by simp
    next
      case False
      then have "int (length (acc @ [job])) < results_per_page" by simp
      from Cons.IH [OF rest this] m True False show ?thesis by simp
    qed
  qed
qed

lemma remote_filter_spec:
  "\<forall>job \<in> set jobs. \<exists>b. field job ''remote'' = Some (JBool b) \<Longrightarrow>
   remote_filter jobs = Inr (filter (\<lambda>job. field job ''remote'' = Some (JBool True)) jobs)"
proof (induction jobs)
  case Nil
  then show ?case by simp
next
  case (Cons job rest)
  then obtain b where b: "field job ''remote'' = Some (JBool b)" by auto
  then obtain kvs where "job = JObj kvs" "map_of kvs ''remote'' = Some (JBool b)"
    by (cases job) auto
  with Cons show ?case
    by (simp add: dict_get_def)
qed

subsection \<open>Derived flags\<close>

text \<open>
  C3. In every record the normalizer builds, \<open>is_internship\<close> is true exactly when the
  lower-cased title contains "intern", "trainee" or "apprentice" as a substring. The title
  of the record is the raw item's title (the empty string when the item has none), and
  nothing else of the item enters the flag.
\<close>

theorem is_internship_iff_title_keyword:
  assumes "job_info raw = Inr info"
  shows "\<exists>title.
      field info ''title'' = Some (JStr title)
      \<and> (case field raw ''title'' of None \<Rightarrow> title = [] | Some t \<Rightarrow> t = JStr title)
      \<and> field info ''is_internship'' =
          Some (JBool (contains (lower title) ''intern'' \<or> contains (lower title) ''trainee''
                       \<or> contains (lower title) ''apprentice''))"
proof -
  from assms obtain job internship where
    raw: "raw = JObj job" and
    int: "is_internship job = Inr internship" and
    t: "field info ''title'' = Some (dict_get job ''title'' (JStr []))" and
    i: "field info ''is_internship'' = Some (JBool internship)"
    by (auto elim!: job_info_Inr)
  from int obtain title where
    title: "dict_get job ''title'' (JStr []) = JStr title" and
    flag: "internship = list_ex (\<lambda>keyword. py_in keyword (lower title))
             [''intern'', ''trainee'', ''apprentice'']"
    by (auto simp: is_internship_def bind_eq_Inr py_lower_eq_Inr)
  have "case field raw ''title'' of None \<Rightarrow> title = [] | Some t \<Rightarrow> t = JStr title"
    using title raw by (auto simp: dict_get_def split: option.splits)
  with t i title flag show ?thesis
    by (simp add: py_in_contains)
qed

text \<open>
  C4. In every record the normalizer builds, \<open>remote\<close> is true exactly when the resolved
  location is a string whose lower-cased text contains "remote"; it is false when the
  resolved location is empty.
\<close>

theorem remote_iff_location_contains:
  assumes "job_info raw = Inr info"
  shows "field info ''remote'' =
           Some (JBool (\<exists>loc. field info ''location'' = Some (JStr loc)
                              \<and> contains (lower loc) ''remote''))
         \<and> (field info ''location'' = Some (JStr []) \<longrightarrow>
              field info ''remote'' = Some (JBool False))"
proof -
  from assms obtain loc remote where
    rem: "is_remote loc = Inr remote" and
    l: "field info ''location'' = Some loc" and
    r: "field info ''remote'' = Some (JBool remote)"
    by (auto elim!: job_info_Inr)
  have "remote = (\<exists>s. loc = JStr s \<and> contains (lower s) ''remote'')"
  proof (cases "truthy loc")
    case True
    with rem show ?thesis
      by (auto simp: is_remote_def bind_eq_Inr py_lower_eq_Inr py_in_contains)
  next
    case False
    then have "loc = JStr s \<Longrightarrow> s = []" for s by auto
    moreover have "\<not> contains (lower []) ''remote''"
      by (simp add: lower_def contains_Nil)
    ultimately show ?thesis
      using False rem by (auto simp: is_remote_def)
  qed
  with l r show ?thesis
    by (auto simp: lower_def contains_Nil)
qed

subsection \<open>Resolution of location and company\<close>

text \<open>
  C7. For a raw item whose location is a nested object, with its area list (empty when
  the object has none): the resolved location is the object's display name, except that
  an area list of at least two entries replaces it by the last entry, a comma and a
  space, and the entry before the last. The record carries this value as its location.
\<close>

theorem location_from_nested_object:
  assumes "map_of job ''location'' = Some (JObj location)"
    and "dict_get location ''area'' (JArr []) = JArr area"
  shows "location_str job =
           Inr (if 2 \<le> length area
                then JStr (py_str (last area) @ '', '' @ py_str (last (butlast area)))
                else dict_get location ''display_name'' (JStr []))
         \<and> (\<forall>info. job_info (JObj job) = Inr info \<longrightarrow>
              field info ''location'' =
                Some (if 2 \<le> length area
                      then JStr (py_str (last area) @ '', '' @ py_str (last (butlast area)))
                      else dict_get location ''display_name'' (JStr [])))"
proof -
  have loc: "location_str job =
           Inr (if 2 \<le> length area
                then JStr (py_str (last area) @ '', '' @ py_str (last (butlast area)))
                else dict_get location ''display_name'' (JStr []))"
  proof (cases "2 \<le> length area")
    case True
    then have ne: "area \<noteq> []" "butlast area \<noteq> []"
      by (cases area rule: rev_cases; auto)+
    have 1: "area ! (length area - Suc 0) = last area"
      using ne by (simp add: last_conv_nth)
    have 2: "area ! (length area - 2) = last (butlast area)"
      using ne True by (simp add: last_conv_nth nth_butlast numeral_2_eq_2)
    from True ne 1 2 show ?thesis
      using assms by (simp add: location_str_def dict_get_def)
  next
    case False
    then show ?thesis
      using assms by (simp add: location_str_def dict_get_def)
  qed
  show ?thesis
  proof (intro conjI allI impI)
    fix info
    assume "job_info (JObj job) = Inr info"
    then show "field info ''location'' =
        Some (if 2 \<le> length area
              then JStr (py_str (last area) @ '', '' @ py_str (last (butlast area)))
              else dict_get location ''display_name'' (JStr []))"
      by (elim job_info_Inr) (use loc in auto)
  qed (rule loc)
qed

text \<open>
  The company rule as the specification states it fails on a company that is there but
  false for Python, such as the empty string: the code gives it the default.
\<close>

theorem company_empty_string_counterexample:
  "company_name [(''company'', JStr [])] = Inr (JStr ''Unknown Company'')
   \<and> company_name [(''company'', JStr [])]
       \<noteq> Inr (spec_company (map_of [(''company'', JStr [])] ''company''))"
  by (simp add: company_name_def dict_get_def)

text \<open>
  C8 (amended). The company field of the record is: the display name of the nested
  object when company is an object (the default "Unknown Company" when the object has no
  display name); the stringified value when company is any other value that is true for
  Python; and the default when company is absent or is a value that is false for Python
  (null, false, zero, the empty string, the empty list).
\<close>

theorem company_field_resolved:
  "company_name job = Inr (resolved_company (map_of job ''company''))
   \<and> (\<forall>info. job_info (JObj job) = Inr info \<longrightarrow>
        field info ''company'' = Some (resolved_company (map_of job ''company'')))"
proof (intro conjI allI impI)
  show "company_name job = Inr (resolved_company (map_of job ''company''))"
    by (rule company_name_resolved)
next
  fix info
  assume "job_info (JObj job) = Inr info"
  then show "field info ''company'' = Some (resolved_company (map_of job ''company''))"
    by (elim job_info_Inr) (simp add: company_name_resolved)
qed

subsection \<open>Shape of the records\<close>

lemma job_info_shape:
  assumes "job_info item = Inr info"
  shows "\<exists>raw kvs. item = JObj raw \<and> info = JObj kvs
           \<and> map fst kvs = schema_fields
           \<and> map_of kvs ''source'' = Some (JStr ''Adzuna'')
           \<and> defaults_applied raw kvs"
  using assms
proof (rule job_info_Inr)
  fix job company loc category internship remote salary
  assume raw: "item = JObj job"
    and c: "company_name job = Inr company"
    and l: "location_str job = Inr loc"
    and g: "category_name job = Inr category"
    and i: "is_internship job = Inr internship"
    and r: "is_remote loc = Inr remote"
    and s: "format_salary (dict_get job ''salary_min'' JNull)
              (dict_get job ''salary_max'' JNull) = Inr salary"
    and info: "info = JObj
      [(''title'', dict_get job ''title'' (JStr [])),
       (''company'', company),
       (''location'', loc),
       (''description'', dict_get job ''description'' (JStr [])),
       (''posted_date'', dict_get job ''created'' (JStr [])),
       (''job_id'', dict_get job ''id'' (JStr [])),
       (''apply_url'', dict_get job ''redirect_url'' (JStr [])),
       (''salary'', JStr salary),
       (''contract_type'', dict_get job ''contract_type'' (JStr [])),
       (''contract_time'', dict_get job ''contract_time'' (JStr [])),
       (''remote'', JBool remote),
       (''category'', category),
       (''is_internship'', JBool internship),
       (''source'', JStr ''Adzuna'')]"
  have d1: "map_of job ''company'' = None \<Longrightarrow> company = JStr ''Unknown Company''"
    using c by (simp add: company_name_resolved)
  have d2: "map_of job ''location'' = None \<Longrightarrow> loc = JStr [] \<and> remote = False"
    using l r by (auto simp: location_str_absent is_remote_def)
  have d3: "map_of job ''category'' = None \<Longrightarrow> category = JStr []"
    using g by (simp add: category_name_absent)
  have d4: "map_of job ''title'' = None \<Longrightarrow> internship = False"
    using i by (simp add: is_internship_absent)
  have d5: "map_of job ''salary_min'' = None \<Longrightarrow> map_of job ''salary_max'' = None \<Longrightarrow>
      salary = ''Not specified''"
    using s by (simp add: format_salary_absent)
  define kvs where "kvs =
      [(''title'', dict_get job ''title'' (JStr [])),
       (''company'', company),
       (''location'', loc),
       (''description'', dict_get job ''description'' (JStr [])),
       (''posted_date'', dict_get job ''created'' (JStr [])),
       (''job_id'', dict_get job ''id'' (JStr [])),
       (''apply_url'', dict_get job ''redirect_url'' (JStr [])),
       (''salary'', JStr salary),
       (''contract_type'', dict_get job ''contract_type'' (JStr [])),
       (''contract_time'', dict_get job ''contract_time'' (JStr [])),
       (''remote'', JBool remote),
       (''category'', category),
       (''is_internship'', JBool internship),
       (''source'', JStr ''Adzuna'')]"
  have k1: "info = JObj kvs"
    using info by (simp add: kvs_def)
  have k2: "map fst kvs = schema_fields"
    by (simp add: kvs_def schema_fields_def)
  have k3: "map_of kvs ''source'' = Some (JStr ''Adzuna'')"
    by (simp add: kvs_def)
  have k4: "defaults_applied job kvs"
    unfolding defaults_applied_def passthrough_fields_def kvs_def
    using d1 d2 d3 d4 d5 by (simp add: dict_get_def)
  from raw k1 k2 k3 k4 show ?thesis
    by blast
qed

text \<open>
  C9. The records the normalizer produces answer the items of the results list one for
  one, and every one of them has exactly the fourteen fields of the schema, has the
  constant "Adzuna" as its source, and holds the default of the data model for each
  upstream field that the item it was built from lacks.
\<close>

theorem records_have_all_fields:
  assumes "parse_job_results data = Inr jobs"
  shows "\<exists>d items. data = JObj d
           \<and> py_iter (dict_get d ''results'' (JArr [])) = Inr items
           \<and> length jobs = length items
           \<and> (\<forall>i < length jobs. \<exists>raw kvs.
                 items ! i = JObj raw \<and> jobs ! i = JObj kvs
                 \<and> map fst kvs = schema_fields
                 \<and> map_of kvs ''source'' = Some (JStr ''Adzuna'')
                 \<and> defaults_applied raw kvs)"
proof -
  from assms obtain d items where d: "data = JObj d"
    and it: "py_iter (dict_get d ''results'' (JArr [])) = Inr items"
    and all: "list_all2 (\<lambda>item info. job_info item = Inr info) items jobs"
    by (rule parse_job_results_Inr)
  from all have len: "length jobs = length items"
    by (simp add: list_all2_lengthD)
  have "\<exists>raw kvs. items ! i = JObj raw \<and> jobs ! i = JObj kvs
           \<and> map fst kvs = schema_fields
           \<and> map_of kvs ''source'' = Some (JStr ''Adzuna'')
           \<and> defaults_applied raw kvs" if "i < length jobs" for i
  proof -
    from all that have "job_info (items ! i) = Inr (jobs ! i)"
      by (simp add: list_all2_conv_all_nth)
    then show ?thesis by (rule job_info_shape)
  qed
  with d it len show ?thesis
    by blast
qed

subsection \<open>One record for each raw item\<close>

text \<open>
  An item the normalizer cannot handle, here one whose title is null, makes the whole
  normalization raise; the search then returns the empty list, and the well-formed item
  before it is lost as well.
\<close>

theorem malformed_item_counterexample:
  "parse_job_results
     (JObj [(''results'', JArr [JObj [(''title'', JStr ''Engineer'')], JObj [(''title'', JNull)]])])
     = Inl AttributeError
   \<and> length (search_jobs
        (serving
          (JObj [(''results'', JArr [JObj [(''title'', JStr ''Engineer'')], JObj [(''title'', JNull)]])]))
        ''python'' ''India'' ''in'' 1 20)
       \<noteq> length [JObj [(''title'', JStr ''Engineer'')], JObj [(''title'', JNull)]]"
proof -
  have "job_info (JObj [(''title'', JNull)]) = Inl AttributeError"
    by (simp add: job_info.simps company_name_def location_str_def category_name_def
        is_internship_def dict_get_def)
  moreover have "\<exists>info. job_info (JObj [(''title'', JStr ''Engineer'')]) = Inr info"
    by (simp add: job_info.simps company_name_def location_str_def category_name_def
        is_internship_def is_remote_def format_salary_def dict_get_def)
  ultimately have "parse_job_results
     (JObj [(''results'', JArr [JObj [(''title'', JStr ''Engineer'')], JObj [(''title'', JNull)]])])
     = Inl AttributeError"
    by (auto simp: parse_job_results_def dict_get_def)
  then show ?thesis
    by (simp add: search_jobs_serving)
qed

text \<open>
  C10 (amended). For every response body that is an object whose results entry is a
  list (the empty list when the key is absent) of items that each normalise without an
  exception, the normalizer returns exactly one record for each element of that list, in
  the same order: the output has the length of the results list, and its i-th record is
  the normalization of the i-th item.
\<close>

theorem one_record_per_item:
  assumes "dict_get d ''results'' (JArr []) = JArr items"
    and "\<forall>item \<in> set items. \<exists>info. job_info item = Inr info"
  shows "\<exists>jobs. parse_job_results (JObj d) = Inr jobs
           \<and> length jobs = length items
           \<and> (\<forall>i < length items. job_info (items ! i) = Inr (jobs ! i))"
proof -
  from all_items_parse [OF assms(2)] obtain infos where
    all: "list_all2 (\<lambda>item info. job_info item = Inr info) items infos"
    by blast
  then have "parse_loop items [] = Inr infos"
    using parse_loop_all [of items infos "[]"] by simp
  with assms(1) have "parse_job_results (JObj d) = Inr infos"
    by (simp add: parse_job_results_def)
  with all show ?thesis
    by (auto simp: list_all2_conv_all_nth)
qed

subsection \<open>Company search\<close>

text \<open>
  For a page size of at least one and a search result whose records all have a string as
  company, \<open>search_by_company\<close>, which asks the search for three times the page size,
  returns the records that pass the company test, in the order of the search result, cut
  after the first page-size many of them.
\<close>

lemma search_by_company_filters:
  assumes "1 \<le> results_per_page"
    and "\<forall>job \<in> set (search_jobs self company wher country page (results_per_page * 3)).
           \<exists>c. field job ''company'' = Some (JStr c)"
  shows "\<exists>kept. search_by_company self company wher country page results_per_page = Inr kept
           \<and> kept = take (nat results_per_page)
                (filter (company_matches company)
                   (search_jobs self company wher country page (results_per_page * 3)))
           \<and> int (length kept) \<le> results_per_page"
proof -
  let ?all = "search_jobs self company wher country page (results_per_page * 3)"
  have "\<forall>job \<in> set ?all.
      company_match (strip (lower company)) job = Inr (company_matches company job)"
    using assms(2) by (auto simp: company_match_spec)
  moreover have "int (length ([] :: json list)) < results_per_page"
    using assms(1) by simp
  ultimately have "company_loop (strip (lower company)) results_per_page ?all [] =
      Inr (take (nat results_per_page) ([] @ filter (company_matches company) ?all))"
    by (rule company_loop_spec)
  then have "search_by_company self company wher country page results_per_page =
      Inr (take (nat results_per_page) (filter (company_matches company) ?all))"
    by (simp add: search_by_company_def Let_def)
  moreover have "int (length (take (nat results_per_page) (filter (company_matches company) ?all)))
      \<le> results_per_page"
    using assms(1) by simp
  ultimately show ?thesis by blast
qed

subsection \<open>Remote search\<close>

text \<open>
  C6. \<open>search_remote_jobs\<close> searches with the keywords followed by the word "remote"
  (the word alone when there are no keywords) and with the location "Remote"; its
  \<open>remote_jobs\<close> list holds exactly the records of that search whose \<open>remote\<close> field is
  true, so every record in it has \<open>remote\<close> true and a record with \<open>remote\<close> false is
  dropped.
\<close>

theorem remote_jobs_all_remote:
  "\<exists>remote_jobs.
     search_remote_jobs self now keywords country page results_per_page =
       Inr [(''search_terms'', JStr keywords),
            (''country'', JStr country),
            (''page'', JInt page),
            (''remote_jobs'', JArr remote_jobs),
            (''total_found'', JInt (int (length remote_jobs))),
            (''timestamp'', JStr now)]
     \<and> remote_jobs =
         filter (\<lambda>job. field job ''remote'' = Some (JBool True))
           (search_jobs self (remote_terms keywords) ''Remote'' country page results_per_page)
     \<and> (\<forall>job \<in> set remote_jobs. field job ''remote'' = Some (JBool True))
     \<and> map_of (params (search_request self (remote_terms keywords) ''Remote'' country page
                 results_per_page)) ''what'' = Some (JStr (remote_terms keywords))
     \<and> map_of (params (search_request self (remote_terms keywords) ''Remote'' country page
                 results_per_page)) ''where'' = Some (JStr ''Remote'')"
proof -
  let ?results = "search_jobs self (remote_terms keywords) ''Remote'' country page results_per_page"
  have "\<exists>b. field job ''remote'' = Some (JBool b)" if "job \<in> set ?results" for job
  proof -
    from search_jobs_record [OF that] obtain raw where "job_info raw = Inr job" by blast
    then show ?thesis by (elim job_info_Inr) simp
  qed
  then have "remote_filter ?results =
      Inr (filter (\<lambda>job. field job ''remote'' = Some (JBool True)) ?results)"
    by (intro remote_filter_spec) blast
  moreover have "(if keywords \<noteq> [] then keywords @ '' remote'' else ''remote'')
      = remote_terms keywords"
    by (simp add: remote_terms_def)
  ultimately show ?thesis
    by (simp add: search_remote_jobs_def search_request_def)
qed

section \<open>The properties on sample data\<close>

subsection \<open>The normalizer on the sample data\<close>

lemma job_info_listing:
  "job_info (listing title company loc) =
     Inr (listing_record title company loc
            (list_ex (\<lambda>keyword. py_in keyword (lower title))
               [''intern'', ''trainee'', ''apprentice''])
            (py_in ''remote'' (lower loc)))"
  by (cases "loc = []")
     (simp_all add: listing_def listing_record_def job_info.simps company_name_def
        location_str_def category_name_def is_internship_def is_remote_def format_salary_def
        dict_get_def lower_def)

lemma int_comma_50000: "int_comma 50000 = ''50,000''"
  by (simp add: int_comma_def dec_nat_step dec_nat_digit digit_def)

lemma int_comma_80000: "int_comma 80000 = ''80,000''"
  by (simp add: int_comma_def dec_nat_step dec_nat_digit digit_def)

lemma location_str_sample: "location_str sample_job = Inr (JStr ''Bangalore, Karnataka'')"
  by (simp add: sample_job_def sample_location_def location_str_def dict_get_def)

lemma job_info_sample: "job_info (JObj sample_job) = Inr sample_record"
proof -
  have "is_internship sample_job = Inr True"
    by (simp add: sample_job_def is_internship_def dict_get_def lower_def is_ascii_def lower_char_def)
  moreover have "is_remote (JStr ''Bangalore, Karnataka'') = Inr False"
    by (simp add: is_remote_def lower_def is_ascii_def lower_char_def)
  moreover have "company_name sample_job = Inr (JStr ''Acme Corp'')"
    by (simp add: sample_job_def company_name_def dict_get_def)
  moreover have "category_name sample_job = Inr (JStr ''Sales Jobs'')"
    by (simp add: sample_job_def category_name_def dict_get_def)
  moreover have "format_salary (dict_get sample_job ''salary_min'' JNull)
      (dict_get sample_job ''salary_max'' JNull) = Inr (rupee @ ''50,000 - '' @ rupee @ ''80,000'')"
    by (simp add: sample_job_def format_salary_def dict_get_def int_comma_50000 int_comma_80000)
  moreover have "dict_get sample_job ''title'' (JStr []) = JStr ''Marketing Trainee''"
    "dict_get sample_job ''description'' (JStr []) = JStr []"
    "dict_get sample_job ''created'' (JStr []) = JStr []"
    "dict_get sample_job ''id'' (JStr []) = JStr ''4242''"
    "dict_get sample_job ''redirect_url'' (JStr []) = JStr []"
    "dict_get sample_job ''contract_type'' (JStr []) = JStr []"
    "dict_get sample_job ''contract_time'' (JStr []) = JStr ''full_time''"
    by (simp_all add: sample_job_def dict_get_def)
  ultimately show ?thesis
    by (simp add: job_info.simps location_str_sample sample_record_def)
qed

lemma lower_internal: "lower ''Internal Auditor'' = ''internal auditor''"
  by (simp add: lower_def is_ascii_def lower_char_def)

lemma lower_engineer: "lower ''Software Engineer'' = ''software engineer''"
  by (simp add: lower_def is_ascii_def lower_char_def)

lemma lower_developer: "lower ''Developer'' = ''developer''"
  by (simp add: lower_def is_ascii_def lower_char_def)

lemma lower_remote_india: "lower ''Remote, India'' = ''remote, india''"
  by (simp add: lower_def is_ascii_def lower_char_def)

lemma lower_pune: "lower ''Pune'' = ''pune''"
  by (simp add: lower_def is_ascii_def lower_char_def)

theorem is_internship_iff_title_keyword_witness:
  "job_info (listing ''Internal Auditor'' ''Acme Corp'' ''Pune'')
     = Inr (listing_record ''Internal Auditor'' ''Acme Corp'' ''Pune'' True False)
   \<and> contains (lower ''Internal Auditor'') ''intern''
   \<and> field (listing_record ''Internal Auditor'' ''Acme Corp'' ''Pune'' True False) ''is_internship''
       = Some (JBool True)
   \<and> job_info (listing ''Software Engineer'' ''Acme Corp'' ''Pune'')
     = Inr (listing_record ''Software Engineer'' ''Acme Corp'' ''Pune'' False False)
   \<and> \<not> (contains (lower ''Software Engineer'') ''intern''
         \<or> contains (lower ''Software Engineer'') ''trainee''
         \<or> contains (lower ''Software Engineer'') ''apprentice'')
   \<and> field (listing_record ''Software Engineer'' ''Acme Corp'' ''Pune'' False False) ''is_internship''
       = Some (JBool False)"
proof -
  have a: "job_info (listing ''Internal Auditor'' ''Acme Corp'' ''Pune'')
     = Inr (listing_record ''Internal Auditor'' ''Acme Corp'' ''Pune'' True False)"
    by (simp add: job_info_listing lower_internal lower_pune)
  have b: "job_info (listing ''Software Engineer'' ''Acme Corp'' ''Pune'')
     = Inr (listing_record ''Software Engineer'' ''Acme Corp'' ''Pune'' False False)"
    by (simp add: job_info_listing lower_engineer lower_pune)
  have c: "contains (lower ''Internal Auditor'') ''intern''"
    by (simp add: py_in_contains [symmetric] lower_internal)
  have d: "\<not> (contains (lower ''Software Engineer'') ''intern''
         \<or> contains (lower ''Software Engineer'') ''trainee''
         \<or> contains (lower ''Software Engineer'') ''apprentice'')"
    by (simp add: py_in_contains [symmetric] lower_engineer)
  from is_internship_iff_title_keyword [OF a] obtain t1 where
    "field (listing_record ''Internal Auditor'' ''Acme Corp'' ''Pune'' True False) ''title''
       = Some (JStr t1)"
    "field (listing_record ''Internal Auditor'' ''Acme Corp'' ''Pune'' True False) ''is_internship''
       = Some (JBool (contains (lower t1) ''intern'' \<or> contains (lower t1) ''trainee''
                       \<or> contains (lower t1) ''apprentice''))"
    by blast
  moreover from this have "t1 = ''Internal Auditor''"
    by (simp add: listing_record_def)
  moreover
  from is_internship_iff_title_keyword [OF b] obtain t2 where
    "field (listing_record ''Software Engineer'' ''Acme Corp'' ''Pune'' False False) ''title''
       = Some (JStr t2)"
    "field (listing_record ''Software Engineer'' ''Acme Corp'' ''Pune'' False False) ''is_internship''
       = Some (JBool (contains (lower t2) ''intern'' \<or> contains (lower t2) ''trainee''
                       \<or> contains (lower t2) ''apprentice''))"
    by blast
  moreover from this have "t2 = ''Software Engineer''"
    by (simp add: listing_record_def)
  ultimately show ?thesis
    using a b c d by simp
qed

theorem remote_iff_location_contains_witness:
  "job_info (listing ''Developer'' ''Acme Corp'' ''Remote, India'')
     = Inr (listing_record ''Developer'' ''Acme Corp'' ''Remote, India'' False True)
   \<and> contains (lower ''Remote, India'') ''remote''
   \<and> field (listing_record ''Developer'' ''Acme Corp'' ''Remote, India'' False True) ''remote''
       = Some (JBool True)
   \<and> job_info (listing ''Developer'' ''Acme Corp'' [])
     = Inr (listing_record ''Developer'' ''Acme Corp'' [] False False)
   \<and> field (listing_record ''Developer'' ''Acme Corp'' [] False False) ''remote''
       = Some (JBool False)"
proof -
  have a: "job_info (listing ''Developer'' ''Acme Corp'' ''Remote, India'')
     = Inr (listing_record ''Developer'' ''Acme Corp'' ''Remote, India'' False True)"
    by (simp add: job_info_listing lower_developer lower_remote_india)
  have b: "job_info (listing ''Developer'' ''Acme Corp'' [])
     = Inr (listing_record ''Developer'' ''Acme Corp'' [] False False)"
    by (simp add: job_info_listing lower_developer) (simp add: lower_def)
  have c: "contains (lower ''Remote, India'') ''remote''"
    by (simp add: py_in_contains [symmetric] lower_remote_india)
  have l: "field (listing_record ''Developer'' ''Acme Corp'' [] False False) ''location''
      = Some (JStr [])"
    by (simp add: listing_record_def)
  from remote_iff_location_contains [OF a] remote_iff_location_contains [OF b] l a b c
  show ?thesis
    by (simp add: listing_record_def)
qed

theorem location_from_nested_object_witness:
  "map_of sample_job ''location'' = Some (JObj sample_location)
   \<and> dict_get sample_location ''area'' (JArr [])
       = JArr [JStr ''India'', JStr ''Karnataka'', JStr ''Bangalore'']
   \<and> location_str sample_job = Inr (JStr ''Bangalore, Karnataka'')
   \<and> job_info (JObj sample_job) = Inr sample_record
   \<and> field sample_record ''location'' = Some (JStr ''Bangalore, Karnataka'')"
proof -
  have a: "map_of sample_job ''location'' = Some (JObj sample_location)"
    by (simp add: sample_job_def)
  have b: "dict_get sample_location ''area'' (JArr [])
       = JArr [JStr ''India'', JStr ''Karnataka'', JStr ''Bangalore'']"
    by (simp add: sample_location_def dict_get_def)
  from location_from_nested_object [OF a b] a b job_info_sample show ?thesis
    by simp
qed

theorem company_field_resolved_witness:
  "job_info (JObj sample_job) = Inr sample_record
   \<and> field sample_record ''company'' = Some (JStr ''Acme Corp'')
   \<and> company_name [(''company'', JStr ''Acme Corp'')] = Inr (JStr ''Acme Corp'')
   \<and> company_name [(''company'', JInt 7)] = Inr (JStr ''7'')
   \<and> company_name [(''company'', JInt 0)] = Inr (JStr ''Unknown Company'')
   \<and> company_name [] = Inr (JStr ''Unknown Company'')"
proof -
  have "resolved_company (map_of sample_job ''company'') = JStr ''Acme Corp''"
    by (simp add: sample_job_def dict_get_def)
  moreover have "py_str (JInt 7) = ''7''"
    by (simp add: str_int_def dec_nat_digit digit_def)
  ultimately show ?thesis
    using company_field_resolved [of sample_job] job_info_sample
      company_field_resolved [of "[(''company'', JStr ''Acme Corp'')]"]
      company_field_resolved [of "[(''company'', JInt 7)]"]
      company_field_resolved [of "[(''company'', JInt 0)]"]
      company_field_resolved [of "[]"]
    by simp
qed

lemma parse_acme:
  "parse_job_results acme_body =
     Inr [listing_record ''Developer'' ''Acme Corp'' ''Pune'' False False,
          listing_record ''Developer'' ''Acme Corporation India'' ''Pune'' False False,
          listing_record ''Developer'' ''Other'' ''Pune'' False False]"
  by (simp add: acme_body_def parse_job_results_def dict_get_def job_info_listing
      lower_developer lower_pune)

lemma parse_remote:
  "parse_job_results remote_body =
     Inr [listing_record ''Developer'' ''Acme Corp'' ''Remote, India'' False True,
          listing_record ''Developer'' ''Acme Corp'' ''Pune'' False False]"
  by (simp add: remote_body_def parse_job_results_def dict_get_def job_info_listing
      lower_developer lower_pune lower_remote_india)

lemma company_matches_listing:
  "company_matches company (listing_record title c loc internship remote) =
     (strip (lower company) = strip (lower c)
      \<or> py_in (strip (lower company)) (strip (lower c))
      \<or> py_in (strip (lower c)) (strip (lower company)))"
  by (simp add: company_matches_def listing_record_def py_in_contains)

lemma strip_lower_acme: "strip (lower ''Acme'') = ''acme''"
  by (simp add: strip_def whitespace_def lower_def is_ascii_def lower_char_def)

lemma strip_lower_acme_corp: "strip (lower ''Acme Corp'') = ''acme corp''"
  by (simp add: strip_def whitespace_def lower_def is_ascii_def lower_char_def)

lemma strip_lower_acme_india:
  "strip (lower ''Acme Corporation India'') = ''acme corporation india''"
  by (simp add: strip_def whitespace_def lower_def is_ascii_def lower_char_def)

lemma strip_lower_other: "strip (lower ''Other'') = ''other''"
  by (simp add: strip_def whitespace_def lower_def is_ascii_def lower_char_def)

lemma list_of_two:
  assumes "length xs = 2"
  shows "xs = [xs ! 0, xs ! 1]"
proof -
  from assms obtain a b where "xs = [a, b]"
    by (cases xs; cases "tl xs") auto
  then show ?thesis by simp
qed

theorem records_have_all_fields_witness:
  "parse_job_results (JObj [(''results'', JArr [JObj sample_job])]) = Inr [sample_record]
   \<and> map_of sample_job ''description'' = None
   \<and> field sample_record ''description'' = Some (JStr [])
   \<and> field sample_record ''source'' = Some (JStr ''Adzuna'')
   \<and> (\<exists>kvs. sample_record = JObj kvs \<and> map fst kvs = schema_fields)"
proof -
  have a: "parse_job_results (JObj [(''results'', JArr [JObj sample_job])]) = Inr [sample_record]"
    by (simp add: parse_job_results_def dict_get_def job_info_sample)
  have b: "map_of sample_job ''description'' = None"
    by (simp add: sample_job_def)
  from records_have_all_fields [OF a] obtain d items where
    d: "JObj [(''results'', JArr [JObj sample_job])] = JObj d"
    and it: "py_iter (dict_get d ''results'' (JArr [])) = Inr items"
    and each: "\<forall>i < length [sample_record]. \<exists>raw kvs.
        items ! i = JObj raw \<and> [sample_record] ! i = JObj kvs
        \<and> map fst kvs = schema_fields
        \<and> map_of kvs ''source'' = Some (JStr ''Adzuna'')
        \<and> defaults_applied raw kvs"
    by blast
  from d it have items: "items = [JObj sample_job]"
    by (auto simp: dict_get_def)
  from each [rule_format, of 0] items obtain kvs where
    k: "sample_record = JObj kvs" "map fst kvs = schema_fields"
      "map_of kvs ''source'' = Some (JStr ''Adzuna'')"
      "defaults_applied sample_job kvs"
    by auto
  from k(4) b have "map_of kvs ''description'' = Some (JStr [])"
    by (simp add: defaults_applied_def passthrough_fields_def)
  moreover have "field sample_record key = map_of kvs key" for key
    unfolding k(1) by simp
  ultimately show ?thesis
    using k a b by auto
qed

theorem one_record_per_item_witness:
  "dict_get [(''results'', JArr [JObj sample_job, listing ''Developer'' ''Other'' ''Pune''])]
       ''results'' (JArr [])
     = JArr [JObj sample_job, listing ''Developer'' ''Other'' ''Pune'']
   \<and> list_all (\<lambda>item. \<exists>info. job_info item = Inr info)
        [JObj sample_job, listing ''Developer'' ''Other'' ''Pune'']
   \<and> parse_job_results
        (JObj [(''results'', JArr [JObj sample_job, listing ''Developer'' ''Other'' ''Pune''])])
     = Inr [sample_record, listing_record ''Developer'' ''Other'' ''Pune'' False False]"
proof -
  let ?items = "[JObj sample_job, listing ''Developer'' ''Other'' ''Pune'']"
  have i: "job_info (listing ''Developer'' ''Other'' ''Pune'')
      = Inr (listing_record ''Developer'' ''Other'' ''Pune'' False False)"
    by (simp add: job_info_listing lower_developer lower_pune)
  have a: "dict_get [(''results'', JArr ?items)] ''results'' (JArr []) = JArr ?items"
    by (simp add: dict_get_def)
  have b: "\<forall>item \<in> set ?items. \<exists>info. job_info item = Inr info"
    by (simp add: job_info_sample i)
  from one_record_per_item [OF a b] obtain jobs where
    p: "parse_job_results (JObj [(''results'', JArr ?items)]) = Inr jobs"
    and l: "length jobs = length ?items"
    and n: "\<forall>i < length ?items. job_info (?items ! i) = Inr (jobs ! i)"
    by blast
  have "jobs ! 0 = sample_record"
    using n [rule_format, of 0] by (simp add: job_info_sample)
  moreover have "jobs ! 1 = listing_record ''Developer'' ''Other'' ''Pune'' False False"
    using n [rule_format, of 1] by (simp add: i)
  moreover from l have "jobs = [jobs ! 0, jobs ! 1]"
    by (intro list_of_two) simp
  ultimately have "jobs = [sample_record, listing_record ''Developer'' ''Other'' ''Pune'' False False]"
    by simp
  with p a b show ?thesis
    by (simp add: list_all_iff)
qed

text \<open>
  C5. The result of \<open>search_by_company\<close> is to have at most page-size many records. The
  code breaks this at a page size of zero: on the three listings of the company example
  and the query "Acme" the loop appends the first matching record before it tests the
  size, and returns that one record.
\<close>

theorem search_by_company_page_size_zero:
  "search_by_company (serving acme_body) ''Acme'' ''India'' ''in'' 1 0
     = Inr [listing_record ''Developer'' ''Acme Corp'' ''Pune'' False False]
   \<and> \<not> int (length [listing_record ''Developer'' ''Acme Corp'' ''Pune'' False False]) \<le> 0"
proof -
  have "company_match ''acme'' (listing_record ''Developer'' ''Acme Corp'' ''Pune'' False False)
      = Inr True"
    by (simp add: company_match_def listing_record_def dict_get_def strip_lower_acme_corp)
  then show ?thesis
    by (simp add: search_by_company_def search_jobs_serving parse_acme strip_lower_acme)
qed

text \<open>The company example of the specification, with a page size of twenty.\<close>

lemma search_by_company_acme:
  "(1::int) \<le> 20
   \<and> list_all (\<lambda>job. \<exists>c. field job ''company'' = Some (JStr c))
        (search_jobs (serving acme_body) ''Acme'' ''India'' ''in'' 1 (20 * 3))
   \<and> search_by_company (serving acme_body) ''Acme'' ''India'' ''in'' 1 20
     = Inr [listing_record ''Developer'' ''Acme Corp'' ''Pune'' False False,
            listing_record ''Developer'' ''Acme Corporation India'' ''Pune'' False False]"
proof -
  have s: "search_jobs (serving acme_body) ''Acme'' ''India'' ''in'' 1 (20 * 3) =
     [listing_record ''Developer'' ''Acme Corp'' ''Pune'' False False,
      listing_record ''Developer'' ''Acme Corporation India'' ''Pune'' False False,
      listing_record ''Developer'' ''Other'' ''Pune'' False False]"
    by (simp add: search_jobs_serving parse_acme)
  have a: "(1::int) \<le> 20"
    by simp
  have b: "\<forall>job \<in> set (search_jobs (serving acme_body) ''Acme'' ''India'' ''in'' 1 (20 * 3)).
         \<exists>c. field job ''company'' = Some (JStr c)"
    unfolding s by (simp add: listing_record_def)
  have m: "company_matches ''Acme'' (listing_record ''Developer'' ''Acme Corp'' ''Pune'' False False)"
    "company_matches ''Acme''
       (listing_record ''Developer'' ''Acme Corporation India'' ''Pune'' False False)"
    "\<not> company_matches ''Acme'' (listing_record ''Developer'' ''Other'' ''Pune'' False False)"
    by (simp_all add: company_matches_listing strip_lower_acme strip_lower_acme_corp
        strip_lower_acme_india strip_lower_other)
  from search_by_company_filters [OF a b] obtain kept where
    "search_by_company (serving acme_body) ''Acme'' ''India'' ''in'' 1 20 = Inr kept"
    "kept = take (nat 20) (filter (company_matches ''Acme'')
       (search_jobs (serving acme_body) ''Acme'' ''India'' ''in'' 1 (20 * 3)))"
    by blast
  then have "search_by_company (serving acme_body) ''Acme'' ''India'' ''in'' 1 20
     = Inr [listing_record ''Developer'' ''Acme Corp'' ''Pune'' False False,
            listing_record ''Developer'' ''Acme Corporation India'' ''Pune'' False False]"
    unfolding s using m by simp
  with a b show ?thesis
    by (simp add: list_all_iff)
qed

theorem remote_jobs_all_remote_witness:
  "search_remote_jobs (serving remote_body) ''2026-01-01T00:00:00'' ''python'' ''in'' 1 20 =
     Inr [(''search_terms'', JStr ''python''),
          (''country'', JStr ''in''),
          (''page'', JInt 1),
          (''remote_jobs'',
             JArr [listing_record ''Developer'' ''Acme Corp'' ''Remote, India'' False True]),
          (''total_found'', JInt 1),
          (''timestamp'', JStr ''2026-01-01T00:00:00'')]
   \<and> list_all (\<lambda>job. field job ''remote'' = Some (JBool True))
        [listing_record ''Developer'' ''Acme Corp'' ''Remote, India'' False True]
   \<and> field (listing_record ''Developer'' ''Acme Corp'' ''Pune'' False False) ''remote''
       = Some (JBool False)"
proof -
  have s: "search_jobs (serving remote_body) (remote_terms ''python'') ''Remote'' ''in'' 1 20 =
     [listing_record ''Developer'' ''Acme Corp'' ''Remote, India'' False True,
      listing_record ''Developer'' ''Acme Corp'' ''Pune'' False False]"
    by (simp add: search_jobs_serving parse_remote)
  have f: "filter (\<lambda>job. field job ''remote'' = Some (JBool True))
      [listing_record ''Developer'' ''Acme Corp'' ''Remote, India'' False True,
       listing_record ''Developer'' ''Acme Corp'' ''Pune'' False False]
     = [listing_record ''Developer'' ''Acme Corp'' ''Remote, India'' False True]"
    by (simp add: listing_record_def)
  from remote_jobs_all_remote
    [of "serving remote_body" "''2026-01-01T00:00:00''" "''python''" "''in''" 1 20]
  obtain kept where
    "search_remote_jobs (serving remote_body) ''2026-01-01T00:00:00'' ''python'' ''in'' 1 20 =
       Inr [(''search_terms'', JStr ''python''),
            (''country'', JStr ''in''),
            (''page'', JInt 1),
            (''remote_jobs'', JArr kept),
            (''total_found'', JInt (int (length kept))),
            (''timestamp'', JStr ''2026-01-01T00:00:00'')]"
    "kept = filter (\<lambda>job. field job ''remote'' = Some (JBool True))
       (search_jobs (serving remote_body) (remote_terms ''python'') ''Remote'' ''in'' 1 20)"
    by blast
  then show ?thesis
    unfolding s f by (simp add: listing_record_def)
qed

end
